theory Spec2Isabelle
  imports Complex_Main
begin

section \<open>Python values that reach the merge\<close>

text \<open>
  A Python \<open>str\<close> is a sequence of Unicode code points; \<open>len\<close> and slicing count code
  points. The bullet marker of \<open>_merge_messages\<close> is U+2022, which is one code point.
\<close>

type_synonym pystr = "nat list"

definition str :: "string \<Rightarrow> pystr" where
  "str s = map of_char s"

definition bullet :: nat where
  "bullet = 8226"

text \<open>
  Durations are seconds held as Python floats (\<open>float(entry_data["infraction_duration"])\<close>).
  The merge only compares them, and comparison of finite floats is exact, so they are
  modelled as reals; NaN is outside the model.
\<close>

text \<open>
  The values that reach \<open>_merge_messages\<close>: \<open>None\<close>, a \<open>str\<close>, or a float (line 149 of
  \<open>infraction_and_notification.py\<close> passes a duration where a reason is meant).
\<close>

datatype pyval = PNone | PStr pystr | PFloat real

text \<open>Python truthiness: \<open>None\<close>, the empty string and \<open>0.0\<close> are false.\<close>

fun truthy :: "pyval \<Rightarrow> bool" where
  "truthy PNone = False"
| "truthy (PStr s) = (s \<noteq> [])"
| "truthy (PFloat x) = (x \<noteq> 0)"

datatype error = AttributeError | TypeError | KeyError

section \<open>The Infraction enumeration\<close>

datatype Infraction = BAN | KICK | MUTE | VOICE_BAN | WARNING | WATCH | SUPERSTAR | NOTE | NONE

text \<open>\<open>auto()\<close> numbers the members from 1 in declaration order.\<close>

fun infraction_value :: "Infraction \<Rightarrow> nat" where
  "infraction_value BAN = 1"
| "infraction_value KICK = 2"
| "infraction_value MUTE = 3"
| "infraction_value VOICE_BAN = 4"
| "infraction_value WARNING = 5"
| "infraction_value WATCH = 6"
| "infraction_value SUPERSTAR = 7"
| "infraction_value NOTE = 8"
| "infraction_value NONE = 9"

fun infraction_name :: "Infraction \<Rightarrow> pystr" where
  "infraction_name BAN = str ''BAN''"
| "infraction_name KICK = str ''KICK''"
| "infraction_name MUTE = str ''MUTE''"
| "infraction_name VOICE_BAN = str ''VOICE_BAN''"
| "infraction_name WARNING = str ''WARNING''"
| "infraction_name WATCH = str ''WATCH''"
| "infraction_name SUPERSTAR = str ''SUPERSTAR''"
| "infraction_name NOTE = str ''NOTE''"
| "infraction_name NONE = str ''NONE''"

definition infraction_members :: "Infraction list" where
  "infraction_members = [BAN, KICK, MUTE, VOICE_BAN, WARNING, WATCH, SUPERSTAR, NOTE, NONE]"

text \<open>\<open>Infraction[key]\<close>: the member of that name, \<open>KeyError\<close> when there is none.\<close>

definition infraction_getitem :: "pystr \<Rightarrow> error + Infraction" where
  "infraction_getitem key =
     (case filter (\<lambda>t. infraction_name t = key) infraction_members of
        [] \<Rightarrow> Inl KeyError
      | t # _ \<Rightarrow> Inr t)"

text \<open>\<open>Infraction.__bool__\<close>: \<open>NONE\<close> is false, every other member is true.\<close>

definition infraction_bool :: "Infraction \<Rightarrow> bool" where
  "infraction_bool t = (t \<noteq> NONE)"

text \<open>
  \<open>s.replace(" ", "_")\<close> and \<open>s.upper()\<close>. \<open>upper\<close> is modelled on ASCII letters; other
  code points are left as they are (Python maps a few non-ASCII letters onto ASCII
  capitals, which only matters for configuration text outside ASCII; the merge never
  builds such a string).
\<close>

definition replace_space :: "pystr \<Rightarrow> pystr" where
  "replace_space s = map (\<lambda>c. if c = 32 then 95 else c) s"

definition upper :: "pystr \<Rightarrow> pystr" where
  "upper s = map (\<lambda>c. if 97 \<le> c \<and> c \<le> 122 then c - 32 else c) s"

section \<open>InfractionAndNotification\<close>

text \<open>
  \<open>_superstar\<close> is \<open>None\<close> or a pair (reason, duration). The reason is a \<open>pyval\<close> because
  line 149 can store a float there; the duration is \<open>None\<close> (permanent) or a float.
\<close>

record InfractionAndNotification =
  infraction_type :: Infraction
  infraction_reason :: pyval
  infraction_duration :: "real option"
  dm_content :: pyval
  dm_embed :: pyval
  superstar :: "(pyval \<times> real option) option"

text \<open>
  The dictionary handed to the constructor. \<open>entry_data["infraction_type"]\<close> is \<open>None\<close>,
  a \<open>str\<close>, or (from line 136) an \<open>Infraction\<close> member.
\<close>

datatype raw_type = TNone | TStr pystr | TEnum Infraction

record entry_data =
  ed_infraction_type :: raw_type
  ed_infraction_reason :: pyval
  ed_infraction_duration :: "real option"
  ed_dm_content :: pyval
  ed_dm_embed :: pyval
  ed_superstar :: "(pyval \<times> real option) option"

fun raw_type_truthy :: "raw_type \<Rightarrow> bool" where
  "raw_type_truthy TNone = False"
| "raw_type_truthy (TStr s) = (s \<noteq> [])"
| "raw_type_truthy (TEnum t) = infraction_bool t"

text \<open>
  \<open>InfractionAndNotification.__init__\<close>. An \<open>Infraction\<close> member has no \<open>replace\<close>
  attribute, so a true member as \<open>entry_data["infraction_type"]\<close> raises
  \<open>AttributeError\<close>. The base-class constructor (not part of the sources at hand) is
  taken to leave \<open>entry_data\<close> as it is.
\<close>

definition init_infraction_type :: "raw_type \<Rightarrow> error + Infraction" where
  "init_infraction_type raw =
     (if raw_type_truthy raw then
        (case raw of
           TStr s \<Rightarrow> infraction_getitem (upper (replace_space s))
         | _ \<Rightarrow> Inl AttributeError)
      else Inr NONE)"

definition init :: "entry_data \<Rightarrow> error + InfractionAndNotification" where
  "init d =
     (case init_infraction_type (ed_infraction_type d) of
        Inl e \<Rightarrow> Inl e
      | Inr t \<Rightarrow> Inr \<lparr>infraction_type = t,
                     infraction_reason = ed_infraction_reason d,
                     infraction_duration = ed_infraction_duration d,
                     dm_content = ed_dm_content d,
                     dm_embed = ed_dm_embed d,
                     superstar = ed_superstar d\<rparr>)"

text \<open>
  \<open>_merge_messages\<close>. \<open>startswith\<close> exists on \<open>str\<close> only: a float that reaches the
  bullet step raises \<open>AttributeError\<close>.
\<close>

definition with_bullet :: "pystr \<Rightarrow> pystr" where
  "with_bullet m = (if m \<noteq> [] \<and> hd m = bullet then m else [bullet, 32] @ m)"

definition merge_messages :: "pyval \<Rightarrow> pyval \<Rightarrow> error + pyval" where
  "merge_messages message1 message2 =
     (if \<not> truthy message1 \<and> \<not> truthy message2 then Inr (PStr [])
      else if \<not> truthy message1 \<or> message1 = message2 then Inr message2
      else if \<not> truthy message2 then Inr message1
      else (case message1 of
              PStr m1 \<Rightarrow>
                (case message2 of
                   PStr m2 \<Rightarrow> Inr (PStr (with_bullet m1 @ [10, 10] @ with_bullet m2))
                 | _ \<Rightarrow> Inl AttributeError)
            | _ \<Rightarrow> Inl AttributeError))"

text \<open>\<open>_merge_durations\<close>: \<open>None\<close> is permanent and wins; otherwise the larger.\<close>

definition merge_durations :: "real option \<Rightarrow> real option \<Rightarrow> real option" where
  "merge_durations duration1 duration2 =
     (case duration1 of
        None \<Rightarrow> None
      | Some d1 \<Rightarrow> (case duration2 of None \<Rightarrow> None | Some d2 \<Rightarrow> Some (max d1 d2)))"

text \<open>
  \<open>InfractionAndNotification.__or__\<close>, for two operands of this class (for any other
  operand it returns \<open>NotImplemented\<close>). \<open>to_dict\<close> belongs to the base class, which is
  not part of the sources at hand: it is a parameter, used only where one infraction is a
  superstarify and the other is not.

  In the superstar branch \<open>superstar\<close> is the \<open>_superstar\<close> field of the SUPERSTAR-typed
  side. With an embedded superstar on either side, \<open>superstar[0]\<close> raises \<open>TypeError\<close>
  when that field is \<open>None\<close>; with none, line 125 reads \<open>superstar.infraction_reason\<close>,
  an attribute that neither \<open>None\<close> nor a tuple has.
\<close>

definition or_superstar ::
  "(InfractionAndNotification \<Rightarrow> entry_data) \<Rightarrow> InfractionAndNotification \<Rightarrow>
     InfractionAndNotification \<Rightarrow> error + InfractionAndNotification" where
  "or_superstar to_dict self other =
     (let superstar' = (if infraction_type self = SUPERSTAR then superstar self else superstar other);
          other_superstar = (if superstar self \<noteq> None then superstar self else superstar other);
          other_type = (if infraction_type self \<noteq> SUPERSTAR then self else other);
          d = to_dict other_type
      in case other_superstar of
           Some os \<Rightarrow>
             (case superstar' of
                None \<Rightarrow> Inl TypeError
              | Some s \<Rightarrow>
                  (case merge_messages (fst s) (fst os) of
                     Inl e \<Rightarrow> Inl e
                   | Inr r \<Rightarrow>
                       init (d\<lparr>ed_superstar := Some (r, merge_durations (snd s) (snd os))\<rparr>)))
         | None \<Rightarrow> Inl AttributeError)"

text \<open>A duration passed where a message is expected (line 149).\<close>

fun duration_val :: "real option \<Rightarrow> pyval" where
  "duration_val None = PNone"
| "duration_val (Some x) = PFloat x"

definition or_superstar_field ::
  "InfractionAndNotification \<Rightarrow> InfractionAndNotification \<Rightarrow>
     error + (pyval \<times> real option) option" where
  "or_superstar_field self other =
     (case superstar self of
        None \<Rightarrow> Inr (superstar other)
      | Some s1 \<Rightarrow>
          (case superstar other of
             None \<Rightarrow> Inr (superstar self)
           | Some s2 \<Rightarrow>
               (case merge_messages (fst s1) (duration_val (snd s2)) of
                  Inl e \<Rightarrow> Inl e
                | Inr r \<Rightarrow> Inr (Some (r, merge_durations (snd s1) (snd s2))))))"

definition or_plain ::
  "InfractionAndNotification \<Rightarrow> InfractionAndNotification \<Rightarrow> error + InfractionAndNotification" where
  "or_plain self other =
     (let higher = (if infraction_value (infraction_type self) > infraction_value (infraction_type other)
                    then other else self);
          ty = (if infraction_type self \<noteq> infraction_type other
                then TStr (infraction_name (infraction_type higher))
                else TEnum (infraction_type self));
          du = (if infraction_type self \<noteq> infraction_type other
                then infraction_duration higher
                else merge_durations (infraction_duration self) (infraction_duration other))
      in case merge_messages (infraction_reason self) (infraction_reason other) of
           Inl e \<Rightarrow> Inl e
         | Inr reason \<Rightarrow>
        (case merge_messages (dm_content self) (dm_content other) of
           Inl e \<Rightarrow> Inl e
         | Inr content \<Rightarrow>
        (case merge_messages (dm_embed self) (dm_embed other) of
           Inl e \<Rightarrow> Inl e
         | Inr emb \<Rightarrow>
        (case or_superstar_field self other of
           Inl e \<Rightarrow> Inl e
         | Inr ss \<Rightarrow>
             init \<lparr>ed_infraction_type = ty, ed_infraction_reason = reason,
                   ed_infraction_duration = du, ed_dm_content = content,
                   ed_dm_embed = emb, ed_superstar = ss\<rparr>))))"

definition ian_or ::
  "(InfractionAndNotification \<Rightarrow> entry_data) \<Rightarrow> InfractionAndNotification \<Rightarrow>
     InfractionAndNotification \<Rightarrow> error + InfractionAndNotification" where
  "ian_or to_dict self other =
     (if infraction_type self = NONE then Inr other
      else if infraction_type other = NONE then Inr self
      else if infraction_type self \<noteq> infraction_type other
              \<and> (infraction_type self = SUPERSTAR \<or> infraction_type other = SUPERSTAR)
      then or_superstar to_dict self other
      else or_plain self other)"

section \<open>The filtering context and the platform\<close>

datatype Event = MESSAGE | MESSAGE_EDIT

text \<open>
  The platform's objects, by the attributes the filtering code reads. A channel's
  \<open>guild\<close> is \<open>None\<close> for a direct-message channel. \<open>Embed()\<close> starts with no
  description and no colour.
\<close>

record User =
  user_id :: nat
  mention :: pystr
  bot :: bool
  avatar_url :: pystr

record Channel =
  channel_id :: nat
  guild :: "nat option"

record Embed =
  description :: pyval
  colour :: "nat option"
  thumbnail :: "pystr option"

definition new_embed :: Embed where
  "new_embed = \<lparr>description = PNone, colour = None, thumbnail = None\<rparr>"

record Message =
  msg_author :: User
  msg_channel :: Channel
  msg_content :: pystr
  msg_embeds :: "Embed list"
  jump_url :: pystr

text \<open>
  \<open>FilterContext\<close>. The output fields \<open>dm_content\<close> and \<open>dm_embed\<close> carry the prefix
  \<open>ctx_\<close> here, the entry's fields of the same names keep theirs. The dispatcher always
  passes the message (line 80 of \<open>filtering.py\<close>), so \<open>message\<close> is not optional in
  the model. A match is held by its \<open>repr\<close>, the only thing the alert reads of it.
\<close>

record FilterContext =
  event :: Event
  author :: User
  channel :: Channel
  content :: pystr
  message :: Message
  embeds :: "Embed list"
  ctx_dm_content :: pystr
  ctx_dm_embed :: Embed
  send_alert :: bool
  alert_content :: pystr
  alert_embeds :: "Embed list"
  action_descriptions :: "pystr list"
  matches :: "pystr list"

text \<open>
  What the code asks of the platform, in order: a private message delivered to a user, a
  message posted in a channel, a command invoked in a channel against a user (expiring the
  given number of seconds after \<open>utcnow()\<close>, with the given reason), and an alert sent
  through the webhook (username, content, embeds).
\<close>

datatype effect =
    AuthorSend User pystr Embed
  | ChannelSend Channel pystr Embed
  | Invoke Channel pystr User real pyval
  | WebhookSend pystr pystr "Embed list"

record state =
  ctx :: FilterContext
  effects :: "effect list"

text \<open>
  The collaborators outside the sources at hand: whether a user refuses private messages
  (\<open>author.send\<close> raises \<open>Forbidden\<close>), the moderation channel
  \<open>get_channel(Channels.mod_alerts)\<close>, the colour constants, and the formatting helpers
  (\<open>format_user\<close>, \<open>format_channel\<close>, \<open>escape_markdown\<close>, \<open>str.title\<close>, \<open>str\<close> of a
  filter's id and of a float).
\<close>

record platform =
  forbidden :: "User \<Rightarrow> bool"
  mod_alerts :: Channel
  og_blurple :: nat
  soft_orange :: nat
  format_user :: "User \<Rightarrow> pystr"
  format_channel :: "Channel \<Rightarrow> pystr"
  escape_markdown :: "pystr \<Rightarrow> pystr"
  title :: "pystr \<Rightarrow> pystr"
  str_int :: "int \<Rightarrow> pystr"
  str_float :: "real \<Rightarrow> pystr"

text \<open>A value inside an f-string.\<close>

fun format_val :: "platform \<Rightarrow> pyval \<Rightarrow> pystr" where
  "format_val pf PNone = str ''None''"
| "format_val pf (PStr s) = s"
| "format_val pf (PFloat x) = str_float pf x"

definition lower :: "pystr \<Rightarrow> pystr" where
  "lower s = map (\<lambda>c. if 65 \<le> c \<and> c \<le> 90 then c + 32 else c) s"

definition describe :: "pystr \<Rightarrow> state \<Rightarrow> state" where
  "describe d s = s\<lparr>ctx := (ctx s)\<lparr>action_descriptions := action_descriptions (ctx s) @ [d]\<rparr>\<rparr>"

definition emit :: "effect \<Rightarrow> state \<Rightarrow> state" where
  "emit e s = s\<lparr>effects := effects s @ [e]\<rparr>"

section \<open>InfractionAndNotification.action\<close>

text \<open>
  A step returns the exception it raised, if any, with the state it left behind: what was
  sent before an exception stays sent.

  Lines 63 to 75. The merged \<open>dm_content\<close> is a local variable; on \<open>Forbidden\<close> line 74
  posts \<open>ctx.dm_content\<close>, which the method never assigns.
\<close>

definition notify :: "platform \<Rightarrow> InfractionAndNotification \<Rightarrow> state \<Rightarrow> error option \<times> state" where
  "notify pf self s =
     (case merge_messages (PStr (ctx_dm_content (ctx s))) (dm_content self) of
        Inl e \<Rightarrow> (Some e, s)
      | Inr dm_content' \<Rightarrow>
     (case merge_messages (description (ctx_dm_embed (ctx s))) (dm_embed self) of
        Inl e \<Rightarrow> (Some e, s)
      | Inr dm_embed' \<Rightarrow>
          if truthy dm_content' \<or> truthy dm_embed' then
            (let greeting = str ''Hey '' @ mention (author (ctx s)) @ str ''!'' @ [10]
                              @ format_val pf dm_content';
                 e1 = (ctx_dm_embed (ctx s))\<lparr>description := dm_embed'\<rparr>;
                 e2 = (if colour e1 = None then e1\<lparr>colour := Some (og_blurple pf)\<rparr> else e1);
                 s1 = s\<lparr>ctx := (ctx s)\<lparr>ctx_dm_embed := e2\<rparr>\<rparr>;
                 s2 = (if forbidden pf (author (ctx s1))
                       then emit (ChannelSend (channel (ctx s1)) (ctx_dm_content (ctx s1)) e2) s1
                       else emit (AuthorSend (author (ctx s1)) greeting e2) s1)
             in (None, describe (str ''notified'') s2))
          else (None, s)))"

text \<open>
  Lines 78 to 85. \<open>timedelta(seconds=None)\<close> raises \<open>TypeError\<close>. The command context
  \<open>msg_ctx\<close> starts in the message's channel.
\<close>

definition apply_superstar ::
  "InfractionAndNotification \<Rightarrow> state \<Rightarrow> error option \<times> state" where
  "apply_superstar self s =
     (case superstar self of
        None \<Rightarrow> (None, s)
      | Some ss \<Rightarrow>
          (case snd ss of
             None \<Rightarrow> (Some TypeError, s)
           | Some seconds \<Rightarrow>
               (None, describe (str ''superstarred'')
                  (emit (Invoke (msg_channel (message (ctx s))) (str ''superstar'')
                           (author (ctx s)) seconds (fst ss)) s))))"

text \<open>Lines 87 to 96.\<close>

definition apply_infraction ::
  "platform \<Rightarrow> InfractionAndNotification \<Rightarrow> state \<Rightarrow> error option \<times> state" where
  "apply_infraction pf self s =
     (if infraction_type self \<noteq> NONE then
        (let target = (if infraction_type self = BAN \<or> guild (channel (ctx s)) = None
                       then mod_alerts pf else msg_channel (message (ctx s)))
         in case infraction_duration self of
              None \<Rightarrow> (Some TypeError, s)
            | Some seconds \<Rightarrow>
                (None, describe (lower (infraction_name (infraction_type self)))
                   (emit (Invoke target (infraction_name (infraction_type self))
                            (author (ctx s)) seconds (infraction_reason self)) s)))
      else (None, s))"

definition and_then ::
  "error option \<times> state \<Rightarrow> (state \<Rightarrow> error option \<times> state) \<Rightarrow> error option \<times> state" where
  "and_then r f = (case fst r of Some e \<Rightarrow> r | None \<Rightarrow> f (snd r))"

definition action :: "platform \<Rightarrow> InfractionAndNotification \<Rightarrow> state \<Rightarrow> error option \<times> state" where
  "action pf self s =
     and_then (and_then (notify pf self s) (apply_superstar self)) (apply_infraction pf self)"

section \<open>The dispatcher\<close>

text \<open>
  A filter exposes an id, a content, a description and its action settings; a filter list
  has a name and answers \<open>triggers_for\<close>, a read-only question about the context. The
  class of the action settings is outside the sources at hand: its type is a parameter,
  and so are its \<open>__or__\<close> and its \<open>action\<close>.
\<close>

record 'a Filter =
  filter_id :: int
  filter_content :: pystr
  filter_description :: pystr
  actions :: 'a

record 'a FilterList =
  list_name :: pystr
  triggers_for :: "FilterContext \<Rightarrow> 'a Filter list"

record 'a action_ops =
  actions_or :: "'a \<Rightarrow> 'a \<Rightarrow> error + 'a"
  actions_action :: "'a \<Rightarrow> state \<Rightarrow> error option \<times> state"

text \<open>
  The cog: the lists subscribed to each event, in subscription order and without
  repetition (\<open>subscribe\<close> appends a list only when it is not there yet), and the alert
  webhook, \<open>None\<close> when it could not be fetched.
\<close>

record 'a Filtering =
  subscriptions :: "Event \<Rightarrow> 'a FilterList list"
  webhook :: "nat option"

text \<open>\<open>sep.join(parts)\<close>.\<close>

fun join :: "pystr \<Rightarrow> pystr list \<Rightarrow> pystr" where
  "join sep [] = []"
| "join sep [x] = x"
| "join sep (x # y # ys) = x @ sep @ join sep (y # ys)"

fun event_name :: "Event \<Rightarrow> pystr" where
  "event_name MESSAGE = str ''MESSAGE''"
| "event_name MESSAGE_EDIT = str ''MESSAGE_EDIT''"

definition replace_underscore :: "pystr \<Rightarrow> pystr" where
  "replace_underscore s = map (\<lambda>c. if c = 95 then 32 else c) s"

text \<open>\<open>#{filter_.id} (`{filter_.content}`)\<close>\<close>

definition filter_ref :: "platform \<Rightarrow> 'a Filter \<Rightarrow> pystr" where
  "filter_ref pf f = str ''#'' @ str_int pf (filter_id f) @ str '' (`'' @ filter_content f @ str ''`)''"

definition list_heading :: "platform \<Rightarrow> 'a FilterList \<Rightarrow> pystr" where
  "list_heading pf fl = str ''**'' @ title pf (list_name fl) @ str '' Filters:** ''"

text \<open>
  Lines 106 to 118. In the general case the two adjacent string literals of lines 115 and
  116 are one literal, so the heading followed by \<open>", "\<close> is the separator of the join.
\<close>

definition filters_summary :: "platform \<Rightarrow> ('a FilterList \<times> 'a Filter list) list \<Rightarrow> pystr" where
  "filters_summary pf triggered_filters =
     (case triggered_filters of
        [(filter_list, [filter'])] \<Rightarrow>
          list_heading pf filter_list @ filter_ref pf filter'
            @ (if filter_description filter' \<noteq> [] then str '' - '' @ filter_description filter' else [])
      | _ \<Rightarrow>
          join [10]
            (map (\<lambda>(filter_list, list_filters).
                    join (list_heading pf filter_list @ str '', '') (map (filter_ref pf) list_filters))
               triggered_filters))"

text \<open>Lines 101 to 124: the parts of the alert body, the empty ones dropped, one per line.\<close>

definition embed_content :: "platform \<Rightarrow> FilterContext \<Rightarrow> ('a FilterList \<times> 'a Filter list) list \<Rightarrow> pystr" where
  "embed_content pf c triggered_filters =
     (let triggered_by = str ''**Triggered by:** '' @ format_user pf (author c);
          triggered_in = (if guild (channel c) \<noteq> None
                          then str ''**Triggered in:** '' @ format_channel pf (channel c)
                          else str ''**DM**'');
          filters = filters_summary pf triggered_filters;
          matches' = str ''**Matches:** '' @ join (str '', '') (matches c);
          actions' = str ''**Actions Taken:** ''
                       @ (if action_descriptions c \<noteq> [] then join (str '', '') (action_descriptions c)
                          else str ''-'');
          content' = str ''**[Original Content]('' @ jump_url (message c) @ str '')**: ''
                       @ escape_markdown pf (content c)
      in join [10] (filter (\<lambda>part. part \<noteq> [])
                      [triggered_by, triggered_in, filters, matches', actions', content']))"

text \<open>Lines 125 and 126.\<close>

definition truncate_content :: "pystr \<Rightarrow> pystr" where
  "truncate_content body = (if length body > 4000 then take 4000 body @ str '' [...]'' else body)"

text \<open>\<open>Filtering._send_alert\<close>.\<close>

definition send_alert_to_webhook ::
  "platform \<Rightarrow> 'a Filtering \<Rightarrow> ('a FilterList \<times> 'a Filter list) list \<Rightarrow> state \<Rightarrow> error option \<times> state" where
  "send_alert_to_webhook pf self triggered_filters s =
     (if webhook self = None then (None, s)
      else
        (let name = title pf (replace_underscore (event_name (event (ctx s)))) @ str '' Filter'';
             embed' = \<lparr>description = PStr (truncate_content (embed_content pf (ctx s) triggered_filters)),
                       colour = Some (soft_orange pf),
                       thumbnail = Some (avatar_url (author (ctx s)))\<rparr>
         in (None, emit (WebhookSend name (alert_content (ctx s)) (embed' # alert_embeds (ctx s))) s)))"

text \<open>
  \<open>reduce(operator.or_, xs)\<close> without an initial value: \<open>TypeError\<close> on an empty sequence,
  otherwise the fold from the left, stopping at the first exception.
\<close>

fun reduce_from :: "('a \<Rightarrow> 'a \<Rightarrow> error + 'a) \<Rightarrow> 'a \<Rightarrow> 'a list \<Rightarrow> error + 'a" where
  "reduce_from f acc [] = Inr acc"
| "reduce_from f acc (x # xs) = (case f acc x of Inl e \<Rightarrow> Inl e | Inr acc' \<Rightarrow> reduce_from f acc' xs)"

fun reduce :: "('a \<Rightarrow> 'a \<Rightarrow> error + 'a) \<Rightarrow> 'a list \<Rightarrow> error + 'a" where
  "reduce f [] = Inl TypeError"
| "reduce f (x # xs) = reduce_from f x xs"

text \<open>Line 80: the context of a message, every output field at its default.\<close>

definition message_context :: "Message \<Rightarrow> FilterContext" where
  "message_context msg =
     \<lparr>event = MESSAGE, author = msg_author msg, channel = msg_channel msg,
      content = msg_content msg, message = msg, embeds = msg_embeds msg,
      ctx_dm_content = [], ctx_dm_embed = new_embed, send_alert = True, alert_content = [],
      alert_embeds = [], action_descriptions = [], matches = []\<rparr>"

text \<open>
  \<open>Filtering.on_message\<close>, from the effects so far to the exception raised (if any), the
  context (\<open>None\<close> when the author is a bot and no context is built) and the effects after.
  \<open>triggered\<close> has one key per subscribed list, whatever the list answered, so it is empty
  only when no list is subscribed.
\<close>

definition on_message ::
  "platform \<Rightarrow> 'a action_ops \<Rightarrow> 'a Filtering \<Rightarrow> Message \<Rightarrow> effect list \<Rightarrow>
     error option \<times> FilterContext option \<times> effect list" where
  "on_message pf ops self msg w =
     (if bot (msg_author msg) then (None, None, w)
      else
        (let c = message_context msg;
             triggered = map (\<lambda>filter_list. (filter_list, triggers_for filter_list c))
                           (subscriptions self MESSAGE)
         in if triggered \<noteq> [] then
              (case reduce (actions_or ops) (concat (map (\<lambda>(filter_list, filters). map actions filters) triggered)) of
                 Inl e \<Rightarrow> (Some e, Some c, w)
               | Inr result_actions \<Rightarrow>
                   (let r = and_then (actions_action ops result_actions \<lparr>ctx = c, effects = w\<rparr>)
                              (\<lambda>s. if send_alert (ctx s) then send_alert_to_webhook pf self triggered s
                                    else (None, s))
                    in (fst r, Some (ctx (snd r)), effects (snd r))))
            else (None, Some c, w)))"

section \<open>Concrete inputs\<close>

text \<open>
  An entry as the configuration gives it: string fields, a duration or none, an embedded
  superstar or none.
\<close>

definition example_entry ::
  "Infraction \<Rightarrow> pystr \<Rightarrow> real option \<Rightarrow> pystr \<Rightarrow> (pyval \<times> real option) option
     \<Rightarrow> InfractionAndNotification" where
  "example_entry t reason duration dm ss =
     \<lparr>infraction_type = t, infraction_reason = PStr reason, infraction_duration = duration,
      dm_content = PStr dm, dm_embed = PStr [], superstar = ss\<rparr>"

text \<open>
  A value for the \<open>to_dict\<close> parameter where a closed example needs one: the fields under
  their own keys. No example below depends on what it returns.
\<close>

definition example_to_dict :: "InfractionAndNotification \<Rightarrow> entry_data" where
  "example_to_dict e =
     \<lparr>ed_infraction_type = TEnum (infraction_type e), ed_infraction_reason = infraction_reason e,
      ed_infraction_duration = infraction_duration e, ed_dm_content = dm_content e,
      ed_dm_embed = dm_embed e, ed_superstar = None\<rparr>"

definition example_user :: User where
  "example_user = \<lparr>user_id = 1, mention = str ''@u'', bot = False, avatar_url = str ''a.png''\<rparr>"

definition example_channel :: Channel where
  "example_channel = \<lparr>channel_id = 7, guild = Some 1\<rparr>"

definition example_message :: Message where
  "example_message =
     \<lparr>msg_author = example_user, msg_channel = example_channel, msg_content = str ''hi'',
      msg_embeds = [], jump_url = str ''url''\<rparr>"

text \<open>A platform whose users all refuse private messages, or all accept them.\<close>

definition example_platform :: "bool \<Rightarrow> platform" where
  "example_platform refuses =
     \<lparr>forbidden = (\<lambda>u. refuses), mod_alerts = \<lparr>channel_id = 0, guild = Some 1\<rparr>,
      og_blurple = 5793266, soft_orange = 16747872, format_user = mention,
      format_channel = (\<lambda>c. str ''#c''), escape_markdown = (\<lambda>s. s), title = (\<lambda>s. s),
      str_int = (\<lambda>i. str ''1''), str_float = (\<lambda>x. str ''0.0'')\<rparr>"

text \<open>Action settings that hold one entry, and a cog with one subscribed list that matches nothing.\<close>

definition example_ops :: "InfractionAndNotification action_ops" where
  "example_ops = \<lparr>actions_or = ian_or example_to_dict, actions_action = action (example_platform False)\<rparr>"

definition example_cog :: "InfractionAndNotification Filtering" where
  "example_cog =
     \<lparr>subscriptions = (\<lambda>e. [\<lparr>list_name = str ''token'', triggers_for = (\<lambda>c. [])\<rparr>]),
      webhook = Some 1\<rparr>"

text \<open>The two groupings of a merge of three entries.\<close>

definition or_left_first ::
  "(InfractionAndNotification \<Rightarrow> entry_data) \<Rightarrow> InfractionAndNotification \<Rightarrow>
     InfractionAndNotification \<Rightarrow> InfractionAndNotification \<Rightarrow> error + InfractionAndNotification" where
  "or_left_first to_dict a b c =
     (case ian_or to_dict a b of Inl e \<Rightarrow> Inl e | Inr ab \<Rightarrow> ian_or to_dict ab c)"

definition or_right_first ::
  "(InfractionAndNotification \<Rightarrow> entry_data) \<Rightarrow> InfractionAndNotification \<Rightarrow>
     InfractionAndNotification \<Rightarrow> InfractionAndNotification \<Rightarrow> error + InfractionAndNotification" where
  "or_right_first to_dict a b c =
     (case ian_or to_dict b c of Inl e \<Rightarrow> Inl e | Inr bc \<Rightarrow> ian_or to_dict a bc)"

section \<open>Properties of the merge\<close>

text \<open>
  The constructor finds a member again from its name, so an entry built from
  \<open>infraction_type.name\<close> (line 133) has that type; every exception of the merge helpers
  is an \<open>AttributeError\<close>; and a true member handed to the constructor (line 136)
  raises.
\<close>

lemma name_lookup: "infraction_getitem (upper (replace_space (infraction_name t))) = Inr t"
  by (cases t) (simp_all add: infraction_getitem_def upper_def replace_space_def str_def infraction_members_def)

lemma merge_messages_error: "merge_messages m1 m2 = Inl e \<Longrightarrow> e = AttributeError"
  by (auto simp: merge_messages_def split: if_splits pyval.splits)

lemma or_superstar_field_error: "or_superstar_field a b = Inl e \<Longrightarrow> e = AttributeError"
  by (auto simp: or_superstar_field_def split: option.splits sum.splits dest: merge_messages_error)

lemma init_enum: "t \<noteq> NONE \<Longrightarrow> init (d\<lparr>ed_infraction_type := TEnum t\<rparr>) = Inl AttributeError"
  by (simp add: init_def init_infraction_type_def infraction_bool_def)

lemma or_plain_same_type:
  "infraction_type a = infraction_type b \<Longrightarrow> infraction_type a \<noteq> NONE \<Longrightarrow> or_plain a b = Inl AttributeError"
  by (auto simp: or_plain_def Let_def init_def init_infraction_type_def infraction_bool_def
      split: sum.splits dest: merge_messages_error or_superstar_field_error)

text \<open>
  A float where a message is expected (line 149) stops the merge of two entries that both
  hold an embedded superstar.
\<close>

lemma merge_messages_float: "r \<noteq> [] \<Longrightarrow> x \<noteq> 0 \<Longrightarrow> merge_messages (PStr r) (PFloat x) = Inl AttributeError"
  by (simp add: merge_messages_def)

lemma or_superstar_field_float:
  "superstar a = Some (PStr r1, d1) \<Longrightarrow> r1 \<noteq> [] \<Longrightarrow> superstar b = Some (r2, Some x) \<Longrightarrow> x \<noteq> 0 \<Longrightarrow>
     or_superstar_field a b = Inl AttributeError"
  by (simp add: or_superstar_field_def merge_messages_float)

lemma or_plain_float:
  "or_superstar_field a b = Inl AttributeError \<Longrightarrow> or_plain a b = Inl AttributeError"
  by (auto simp: or_plain_def Let_def split: sum.splits dest: merge_messages_error)

text \<open>
  Where the two types differ and neither is a superstarify, a merge that returns has the
  type of lower value, the more severe one.
\<close>

lemma name_not_empty: "infraction_name t \<noteq> []"
  by (cases t) (simp_all add: str_def)

lemma init_name:
  "init \<lparr>ed_infraction_type = TStr (infraction_name t), ed_infraction_reason = reason,
         ed_infraction_duration = du, ed_dm_content = dm, ed_dm_embed = emb, ed_superstar = ss\<rparr>
     = Inr \<lparr>infraction_type = t, infraction_reason = reason, infraction_duration = du,
            dm_content = dm, dm_embed = emb, superstar = ss\<rparr>"
  by (simp add: init_def init_infraction_type_def name_lookup name_not_empty)

lemma severity_resolution:
  "infraction_type a \<noteq> infraction_type b \<Longrightarrow> infraction_type a \<noteq> NONE \<Longrightarrow> infraction_type b \<noteq> NONE \<Longrightarrow>
   infraction_type a \<noteq> SUPERSTAR \<Longrightarrow> infraction_type b \<noteq> SUPERSTAR \<Longrightarrow>
   ian_or to_dict a b = Inr r \<Longrightarrow>
     infraction_type r = (if infraction_value (infraction_type a) > infraction_value (infraction_type b)
                          then infraction_type b else infraction_type a)"
  by (auto simp: ian_or_def or_plain_def Let_def init_name split: sum.splits if_splits)

text \<open>
  Claim C2, as amended. An entry \<open>n\<close> without infraction is a left identity of the merge:
  \<open>n | x\<close> is \<open>x\<close> for every \<open>x\<close>. It is a right identity on the entries that have an
  infraction: \<open>x | n\<close> is \<open>x\<close> when the type of \<open>x\<close> is not \<open>NONE\<close>. When neither has an
  infraction the first guard returns the right operand, so \<open>x | n\<close> is \<open>n\<close>.
\<close>

theorem or_none_identity:
  "infraction_type n = NONE \<Longrightarrow>
     ian_or to_dict n x = Inr x
     \<and> (infraction_type x \<noteq> NONE \<longrightarrow> ian_or to_dict x n = Inr x)
     \<and> (infraction_type x = NONE \<longrightarrow> ian_or to_dict x n = Inr n)"
  by (simp add: ian_or_def)

theorem or_none_identity_witness:
  "infraction_type (example_entry NONE [] None (str ''b'') None) = NONE
   \<and> ian_or example_to_dict (example_entry NONE [] None (str ''b'') None) (example_entry BAN (str ''r'') (Some 5) [] None)
       = Inr (example_entry BAN (str ''r'') (Some 5) [] None)
   \<and> ian_or example_to_dict (example_entry BAN (str ''r'') (Some 5) [] None) (example_entry NONE [] None (str ''b'') None)
       = Inr (example_entry BAN (str ''r'') (Some 5) [] None)"
  using or_none_identity [of "example_entry NONE [] None (str ''b'') None" example_to_dict
      "example_entry BAN (str ''r'') (Some 5) [] None"]
  by (simp add: example_entry_def)

text \<open>
  Claim C2 as stated fails: of two entries without infraction that differ in their DM
  content, the merge returns the right one, not the left one.
\<close>

theorem or_none_right_counterexample:
  "infraction_type (example_entry NONE [] None (str ''b'') None) = NONE
   \<and> ian_or example_to_dict (example_entry NONE [] None (str ''a'') None) (example_entry NONE [] None (str ''b'') None)
       \<noteq> Inr (example_entry NONE [] None (str ''a'') None)"
  by (simp add: ian_or_def example_entry_def str_def)

text \<open>
  Claim C3. The two groupings of three entries, none a superstarify, disagree: merging a
  ban with two warnings from the left gives a ban, while merging the two warnings first
  raises \<open>AttributeError\<close> (line 136 hands the constructor the member, not its name).
\<close>

theorem merge_not_associative:
  "or_left_first example_to_dict (example_entry BAN (str ''a'') (Some 5) [] None)
      (example_entry WARNING (str ''b'') (Some 7) [] None) (example_entry WARNING (str ''c'') (Some 9) [] None)
     = Inr (example_entry BAN ([bullet, 32] @ str ''a'' @ [10, 10] @ [bullet, 32] @ str ''b''
                                 @ [10, 10] @ [bullet, 32] @ str ''c'') (Some 5) [] None)
   \<and> or_right_first example_to_dict (example_entry BAN (str ''a'') (Some 5) [] None)
      (example_entry WARNING (str ''b'') (Some 7) [] None) (example_entry WARNING (str ''c'') (Some 9) [] None)
     = Inl AttributeError"
  by (simp add: or_left_first_def or_right_first_def ian_or_def or_plain_def Let_def example_entry_def
      merge_messages_def or_superstar_field_def init_def init_infraction_type_def infraction_bool_def
      infraction_getitem_def infraction_members_def upper_def replace_space_def str_def with_bullet_def bullet_def)

text \<open>
  Claim C4. Two bans do not merge into a ban: entries of one type take line 136, and the
  constructor raises \<open>AttributeError\<close>, whatever the durations.
\<close>

theorem bans_do_not_merge:
  "infraction_type a = BAN \<Longrightarrow> infraction_type b = BAN \<Longrightarrow> ian_or to_dict a b = Inl AttributeError"
  by (simp add: ian_or_def or_plain_same_type)

theorem bans_do_not_merge_witness:
  "ian_or example_to_dict (example_entry BAN (str ''a'') (Some 5) [] None) (example_entry BAN (str ''b'') (Some 10) [] None)
     = Inl AttributeError"
  using bans_do_not_merge [of "example_entry BAN (str ''a'') (Some 5) [] None" "example_entry BAN (str ''b'') (Some 10) [] None" example_to_dict]
  by (simp add: example_entry_def)

text \<open>
  Claim C5. A superstarify merged with another infraction, neither entry holding an
  embedded superstar, raises \<open>AttributeError\<close> in either order: line 125 reads
  \<open>infraction_reason\<close> of the \<open>_superstar\<close> field, which is \<open>None\<close>. The reason and
  duration of the superstarify are not read anywhere in the branch.
\<close>

theorem superstar_merge_raises:
  "infraction_type a = SUPERSTAR \<Longrightarrow> infraction_type b \<noteq> SUPERSTAR \<Longrightarrow> infraction_type b \<noteq> NONE \<Longrightarrow>
   superstar a = None \<Longrightarrow> superstar b = None \<Longrightarrow>
     ian_or to_dict a b = Inl AttributeError \<and> ian_or to_dict b a = Inl AttributeError"
  by (auto simp: ian_or_def or_superstar_def Let_def)

theorem superstar_merge_raises_witness:
  "ian_or example_to_dict (example_entry SUPERSTAR (str ''r'') (Some 10) [] None) (example_entry BAN (str ''b'') None [] None) = Inl AttributeError
   \<and> ian_or example_to_dict (example_entry BAN (str ''b'') None [] None) (example_entry SUPERSTAR (str ''r'') (Some 10) [] None) = Inl AttributeError"
  using superstar_merge_raises [of "example_entry SUPERSTAR (str ''r'') (Some 10) [] None" "example_entry BAN (str ''b'') None [] None" example_to_dict]
  by (simp add: example_entry_def)

text \<open>
  Claim C6. Two entries of different types, each with an embedded superstar: line 149
  merges the first reason with the second \<open>duration\<close>. When the first reason is not empty
  and the second duration is a number other than zero, the merge raises
  \<open>AttributeError\<close> instead of merging the two reasons.
\<close>

theorem embedded_superstars_raise:
  "infraction_type a \<noteq> infraction_type b \<Longrightarrow> infraction_type a \<noteq> NONE \<Longrightarrow> infraction_type b \<noteq> NONE \<Longrightarrow>
   infraction_type a \<noteq> SUPERSTAR \<Longrightarrow> infraction_type b \<noteq> SUPERSTAR \<Longrightarrow>
   superstar a = Some (PStr r1, d1) \<Longrightarrow> r1 \<noteq> [] \<Longrightarrow> superstar b = Some (r2, Some x) \<Longrightarrow> x \<noteq> 0 \<Longrightarrow>
     ian_or to_dict a b = Inl AttributeError"
  by (simp add: ian_or_def or_plain_float or_superstar_field_float)

theorem embedded_superstars_raise_witness:
  "ian_or example_to_dict (example_entry WARNING (str ''w'') (Some 5) [] (Some (PStr (str ''a''), Some 10)))
      (example_entry BAN (str ''b'') (Some 7) [] (Some (PStr (str ''b''), Some 20))) = Inl AttributeError"
  using embedded_superstars_raise [of "example_entry WARNING (str ''w'') (Some 5) [] (Some (PStr (str ''a''), Some 10))"
      "example_entry BAN (str ''b'') (Some 7) [] (Some (PStr (str ''b''), Some 20))" "str ''a''" "Some 10" "PStr (str ''b'')" 20 example_to_dict]
  by (simp add: example_entry_def str_def)

text \<open>
  Claim C7. For two strings \<open>_merge_messages\<close> returns the empty string when both are
  empty, the other one when one is empty, that string when both are the same, and otherwise
  the two as bullet points with a blank line between them; a string gets the bullet and a
  space in front unless it starts with the bullet already.
\<close>

theorem merge_messages_str:
  "(m1 = [] \<and> m2 = [] \<longrightarrow> merge_messages (PStr m1) (PStr m2) = Inr (PStr []))
   \<and> (m1 \<noteq> [] \<and> m2 = [] \<longrightarrow> merge_messages (PStr m1) (PStr m2) = Inr (PStr m1))
   \<and> (m1 = [] \<and> m2 \<noteq> [] \<longrightarrow> merge_messages (PStr m1) (PStr m2) = Inr (PStr m2))
   \<and> (m1 = m2 \<longrightarrow> merge_messages (PStr m1) (PStr m2) = Inr (PStr m1))
   \<and> (m1 \<noteq> [] \<and> m2 \<noteq> [] \<and> m1 \<noteq> m2 \<longrightarrow>
        merge_messages (PStr m1) (PStr m2) = Inr (PStr (with_bullet m1 @ [10, 10] @ with_bullet m2)))
   \<and> (take 1 m1 = [bullet] \<longrightarrow> with_bullet m1 = m1)
   \<and> (take 1 m1 \<noteq> [bullet] \<longrightarrow> with_bullet m1 = [bullet, 32] @ m1)"
  by (cases m1) (auto simp: merge_messages_def with_bullet_def)

theorem merge_messages_str_witness:
  "merge_messages (PStr (str ''foo'')) (PStr []) = Inr (PStr (str ''foo''))
   \<and> merge_messages (PStr (str ''foo'')) (PStr (str ''foo'')) = Inr (PStr (str ''foo''))
   \<and> merge_messages (PStr (str ''foo'')) (PStr (str ''bar''))
       = Inr (PStr ([bullet, 32] @ str ''foo'' @ [10, 10] @ [bullet, 32] @ str ''bar''))"
  using merge_messages_str [of "str ''foo''" "[]"] merge_messages_str [of "str ''foo''" "str ''foo''"]
    merge_messages_str [of "str ''foo''" "str ''bar''"] merge_messages_str [of "str ''bar''" "[]"]
  by (simp add: str_def bullet_def)

section \<open>Properties of the action\<close>

text \<open>
  Claim C8. An entry with DM content, applied to the fresh context of a message. When the
  author accepts private messages, the greeting and the content are sent to them. When
  the author refuses them, the channel gets \<open>ctx.dm_content\<close>, here the empty string:
  not the content that would have been sent. \<open>notified\<close> is recorded either way.
\<close>

theorem fallback_posts_other_content:
  "action (example_platform True) (example_entry NONE [] None (str ''stop'') None)
      \<lparr>ctx = message_context example_message, effects = []\<rparr>
     = (None, \<lparr>ctx = (message_context example_message)
                  \<lparr>ctx_dm_embed := \<lparr>description = PStr [], colour = Some 5793266, thumbnail = None\<rparr>,
                   action_descriptions := [str ''notified'']\<rparr>,
               effects = [ChannelSend example_channel []
                            \<lparr>description = PStr [], colour = Some 5793266, thumbnail = None\<rparr>]\<rparr>)
   \<and> action (example_platform False) (example_entry NONE [] None (str ''stop'') None)
      \<lparr>ctx = message_context example_message, effects = []\<rparr>
     = (None, \<lparr>ctx = (message_context example_message)
                  \<lparr>ctx_dm_embed := \<lparr>description = PStr [], colour = Some 5793266, thumbnail = None\<rparr>,
                   action_descriptions := [str ''notified'']\<rparr>,
               effects = [AuthorSend example_user (str ''Hey @u!'' @ [10] @ str ''stop'')
                            \<lparr>description = PStr [], colour = Some 5793266, thumbnail = None\<rparr>]\<rparr>)"
  by (simp add: action_def and_then_def notify_def apply_superstar_def apply_infraction_def Let_def
      example_entry_def example_platform_def message_context_def example_message_def example_user_def
      example_channel_def merge_messages_def new_embed_def emit_def describe_def str_def)

text \<open>The last step raises when the entry has an infraction and no duration.\<close>

lemma apply_infraction_permanent:
  "infraction_type self \<noteq> NONE \<Longrightarrow> infraction_duration self = None \<Longrightarrow>
     apply_infraction pf self s = (Some TypeError, s)"
  by (simp add: apply_infraction_def Let_def)

text \<open>
  Claim C10. Applying an entry with an infraction and no duration raises: the expiry is
  computed as \<open>timedelta(seconds=None)\<close>.
\<close>

theorem permanent_infraction_raises:
  "infraction_type self \<noteq> NONE \<Longrightarrow> infraction_duration self = None \<Longrightarrow>
     fst (action pf self s) \<noteq> None"
  by (auto simp: action_def and_then_def apply_infraction_permanent split: option.splits)

theorem permanent_infraction_raises_witness:
  "action (example_platform False) (example_entry BAN (str ''spam'') None [] None)
      \<lparr>ctx = message_context example_message, effects = []\<rparr>
     = (Some TypeError, \<lparr>ctx = message_context example_message, effects = []\<rparr>)"
  using permanent_infraction_raises [of "example_entry BAN (str ''spam'') None [] None" "example_platform False"
      "\<lparr>ctx = message_context example_message, effects = []\<rparr>"]
  by (simp add: action_def and_then_def notify_def apply_superstar_def apply_infraction_def Let_def
      example_entry_def message_context_def merge_messages_def new_embed_def)

section \<open>Properties of the dispatcher\<close>

text \<open>When every subscribed list matches nothing, there are no action settings to reduce.\<close>

lemma no_actions:
  "\<forall>filter_list \<in> set subscribed. triggers_for filter_list c = [] \<Longrightarrow>
     concat (map (\<lambda>(filter_list, filters). map actions filters)
               (map (\<lambda>filter_list. (filter_list, triggers_for filter_list c)) subscribed)) = []"
  by (induction subscribed) simp_all

text \<open>
  Claim C1. A message of a non-bot author that no subscribed list matches: with at least
  one list subscribed, \<open>triggered\<close> is not empty, \<open>reduce\<close> gets an empty sequence and
  raises \<open>TypeError\<close>; nothing was applied or sent and the context is as built. Only with
  no list subscribed does the dispatch return quietly.
\<close>

theorem no_match_raises:
  "\<not> bot (msg_author msg) \<Longrightarrow>
   (\<forall>filter_list \<in> set (subscriptions self MESSAGE). triggers_for filter_list (message_context msg) = []) \<Longrightarrow>
     (subscriptions self MESSAGE \<noteq> [] \<longrightarrow>
        on_message pf ops self msg w = (Some TypeError, Some (message_context msg), w))
     \<and> (subscriptions self MESSAGE = [] \<longrightarrow>
        on_message pf ops self msg w = (None, Some (message_context msg), w))"
proof -
  assume nb: "\<not> bot (msg_author msg)"
    and empty: "\<forall>filter_list \<in> set (subscriptions self MESSAGE). triggers_for filter_list (message_context msg) = []"
  have none: "concat (map (\<lambda>(filter_list, filters). map actions filters)
               (map (\<lambda>filter_list. (filter_list, triggers_for filter_list (message_context msg)))
                  (subscriptions self MESSAGE))) = []"
    using empty by (rule no_actions)
  show ?thesis
    using nb by (simp add: on_message_def Let_def none del: map_map)
qed

theorem no_match_raises_witness:
  "on_message (example_platform False) example_ops example_cog example_message []
     = (Some TypeError, Some (message_context example_message), [])"
  using no_match_raises [of example_message example_cog "example_platform False" example_ops "[]"]
  by (simp add: example_cog_def example_message_def example_user_def)

text \<open>
  Claim C9. The alert body is cut to its first 4000 characters, with the marker
  \<open>" [...]"\<close> after them, when it is longer than 4000 characters, and left as it is
  otherwise; so it is never longer than 4000 characters and the marker. With a webhook,
  the alert sent carries that body as the description of its first embed.
\<close>

theorem alert_body_bounded:
  "length (truncate_content body) \<le> 4000 + length (str '' [...]'')
   \<and> (4000 < length body \<longrightarrow> truncate_content body = take 4000 body @ str '' [...]'')
   \<and> (length body \<le> 4000 \<longrightarrow> truncate_content body = body)
   \<and> (webhook self \<noteq> None \<longrightarrow>
        (\<exists>name e. effects (snd (send_alert_to_webhook pf self triggered s))
                     = effects s @ [WebhookSend name (alert_content (ctx s)) (e # alert_embeds (ctx s))]
                   \<and> description e = PStr (truncate_content (embed_content pf (ctx s) triggered))))"
  by (auto simp: truncate_content_def send_alert_to_webhook_def Let_def emit_def str_def)

theorem alert_body_bounded_witness:
  "length (truncate_content (replicate 4001 120)) = 4006
   \<and> truncate_content (replicate 4001 120) = replicate 4000 120 @ str '' [...]''
   \<and> truncate_content (str ''short'') = str ''short''"
  using alert_body_bounded [of "replicate 4001 120" example_cog]
    alert_body_bounded [of "str ''short''" example_cog]
  by (simp add: str_def)

end
